theory Spec2Isabelle
  imports Complex_Main "HOL-Library.AList"
begin

section \<open>Monthly totals\<close>

text \<open>
  The monthly total handed to \<^verbatim>\<open>emf_level_from_total\<close> is a Python number. The function
  only compares it with the integer literals 500, 1000, 1500 and 2000, and a comparison of
  a float with an integer is exact, so a finite total is modelled by the rational it
  denotes; the three special floats are kept as values of their own. Every comparison
  with NaN is false, as in Python.
\<close>

datatype pyfloat = NaN | NegInf | Fin rat | PosInf

fun py_le :: "pyfloat \<Rightarrow> pyfloat \<Rightarrow> bool" where
  "py_le NaN b = False"
| "py_le a NaN = False"
| "py_le NegInf b = True"
| "py_le (Fin x) NegInf = False"
| "py_le (Fin x) (Fin y) = (x \<le> y)"
| "py_le (Fin x) PosInf = True"
| "py_le PosInf PosInf = True"
| "py_le PosInf b = False"

definition py_ge :: "pyfloat \<Rightarrow> pyfloat \<Rightarrow> bool" where
  "py_ge a b = py_le b a"

section \<open>The EMF tier\<close>

text \<open>
  \<^verbatim>\<open>
  def emf_level_from_total(total: float) -> int:
      if total >= 2000: return 5
      if total >= 1500: return 4
      if total >= 1000: return 3
      if total >=  500: return 2
      return 1
  \<close>
\<close>

definition emf_level_from_total :: "pyfloat \<Rightarrow> int" where
  "emf_level_from_total tot =
     (if py_ge tot (Fin 2000) then 5
      else if py_ge tot (Fin 1500) then 4
      else if py_ge tot (Fin 1000) then 3
      else if py_ge tot (Fin 500) then 2
      else 1)"


section \<open>Exceptions\<close>

text \<open>
  A Python call either returns a value or raises. The exceptions that occur here are all
  instances of \<^verbatim>\<open>Exception\<close>: a generic one, carrying the text that \<^verbatim>\<open>str(e)\<close> gives, and
  the \<^verbatim>\<open>KeyError\<close> of a dictionary subscript. Exceptions outside that class
  (\<^verbatim>\<open>KeyboardInterrupt\<close>, \<^verbatim>\<open>SystemExit\<close>) are not modelled. A call that may raise returns \<open>exn + 'a\<close>,
  with \<open>Inl\<close> for the exception; \<open>bind_exn\<close> is sequencing, where an exception of the
  first statement skips the rest.
\<close>

datatype exn = Exception string | KeyError string

fun str_exn :: "exn \<Rightarrow> string" where
  "str_exn (Exception msg) = msg"
| "str_exn (KeyError k) = k"

definition bind_exn :: "exn + 'a \<Rightarrow> ('a \<Rightarrow> exn + 'b) \<Rightarrow> exn + 'b" where
  "bind_exn r f = (case r of Inl x \<Rightarrow> Inl x | Inr a \<Rightarrow> f a)"

text \<open>
  \<^verbatim>\<open>try: body  except Exception as e: handler\<close>: the handler runs on every exception of
  the body, and an exception of the handler itself leaves the statement.
\<close>

definition try_except :: "exn + 'a \<Rightarrow> (exn \<Rightarrow> exn + 'a) \<Rightarrow> exn + 'a" where
  "try_except body handler = (case body of Inl x \<Rightarrow> handler x | Inr a \<Rightarrow> Inr a)"

section \<open>Decimal text of an integer\<close>

text \<open>What an f-string writes for an \<^verbatim>\<open>int\<close>.\<close>

definition digit_char :: "nat \<Rightarrow> char" where
  "digit_char d = ''0123456789'' ! d"

fun str_nat :: "nat \<Rightarrow> string" where
  "str_nat n = (if n < 10 then [digit_char n] else str_nat (n div 10) @ [digit_char (n mod 10)])"

declare str_nat.simps [simp del]

definition str_int :: "int \<Rightarrow> string" where
  "str_int i = (if i < 0 then CHR ''-'' # str_nat (nat (- i)) else str_nat (nat i))"

section \<open>The sound wrapper\<close>

text \<open>
  A \<^verbatim>\<open>QSoundEffect\<close> as far as the program uses it: the file it plays, its loop count,
  its volume and whether it is playing.
\<close>

record effect =
  source :: string
  loop_count :: int
  volume :: rat
  playing :: bool

text \<open>
  \<^verbatim>\<open>self.effects\<close> is a dictionary from level to effect object. It is kept as the list of
  its items in insertion order; \<^verbatim>\<open>effects.get(k)\<close> is \<open>map_of\<close>, storing under a key is
  \<open>AList.update\<close>, and a method call on the object found under a key replaces the value
  stored there, since each key holds an object of its own.
\<close>

record emf_sound =
  enabled :: bool
  cur_level :: int
  effects :: "(int \<times> effect) list"

text \<open>
  \<^verbatim>\<open>
  def __init__(self, assets_dir: Path, enabled: bool):
      self.enabled = bool(enabled) and HAVE_SOUND
      self.cur_level = 1
      self.effects: dict[int, QSoundEffect] = {}
      if self.enabled:
          for lvl in (2, 3, 4, 5):
              wav = assets_dir / f"emf{lvl}.wav"
              if wav.exists():
                  s = QSoundEffect()
                  s.setSource(QUrl.fromLocalFile(str(wav)))
                  s.setLoopCount(999_999)
                  s.setVolume(0.85)
                  self.effects[lvl] = s
  \<close>
  The module constant \<^verbatim>\<open>HAVE_SOUND\<close> is the parameter \<open>have_sound\<close>; the assets directory
  is the list of the file names in it.
\<close>

definition load_effect :: "string list \<Rightarrow> (int \<times> effect) list \<Rightarrow> int \<Rightarrow> (int \<times> effect) list" where
  "load_effect assets_dir effs lvl =
     (let wav = ''emf'' @ str_int lvl @ ''.wav'' in
      if wav \<in> set assets_dir
      then AList.update lvl
             \<lparr>source = wav, loop_count = 999999, volume = 85 / 100, playing = False\<rparr> effs
      else effs)"

definition EMFSound_init :: "bool \<Rightarrow> string list \<Rightarrow> bool \<Rightarrow> emf_sound" where
  "EMFSound_init have_sound assets_dir enabled0 =
     (let en = (enabled0 \<and> have_sound) in
      \<lparr>enabled = en, cur_level = 1,
       effects = (if en then foldl (load_effect assets_dir) [] [2, 3, 4, 5] else [])\<rparr>)"

text \<open>
  \<^verbatim>\<open>
  def stop(self):
      for s in self.effects.values():
          try: s.stop()
          except Exception: pass
      self.cur_level = 1
  \<close>
  \<^verbatim>\<open>QSoundEffect.stop\<close> is the one toolkit call the source guards, so it is the one that is
  given a failing branch: it is the parameter \<open>qstop\<close>, which returns the stopped effect or
  raises and leaves the effect as it was. \<open>QSoundEffect_stop\<close> is the call as the toolkit
  documents it.
\<close>

definition QSoundEffect_stop :: "effect \<Rightarrow> exn + effect" where
  "QSoundEffect_stop e = Inr (e\<lparr>playing := False\<rparr>)"

definition try_stop :: "(effect \<Rightarrow> exn + effect) \<Rightarrow> effect \<Rightarrow> exn + effect" where
  "try_stop qstop e = try_except (qstop e) (\<lambda>x. Inr e)"

fun stop_values :: "(effect \<Rightarrow> exn + effect) \<Rightarrow> (int \<times> effect) list \<Rightarrow> exn + (int \<times> effect) list" where
  "stop_values qstop [] = Inr []"
| "stop_values qstop ((k, e) # es) =
     bind_exn (try_stop qstop e) (\<lambda>e'.
     bind_exn (stop_values qstop es) (\<lambda>es'. Inr ((k, e') # es')))"

definition stop :: "(effect \<Rightarrow> exn + effect) \<Rightarrow> emf_sound \<Rightarrow> exn + emf_sound" where
  "stop qstop s =
     bind_exn (stop_values qstop (effects s)) (\<lambda>es'.
     Inr (s\<lparr>effects := es', cur_level := 1\<rparr>))"

text \<open>
  \<^verbatim>\<open>
  def set_muted(self, muted: bool):
      self.enabled = not muted and HAVE_SOUND
      if muted:
          self.stop()
  \<close>
\<close>

definition set_muted :: "bool \<Rightarrow> (effect \<Rightarrow> exn + effect) \<Rightarrow> emf_sound \<Rightarrow> bool \<Rightarrow> exn + emf_sound" where
  "set_muted have_sound qstop s muted =
     (let s1 = s\<lparr>enabled := (\<not> muted \<and> have_sound)\<rparr> in
      if muted then stop qstop s1 else Inr s1)"

text \<open>
  \<^verbatim>\<open>
  def play_for_level(self, level: int):
      if not self.enabled or not self.effects:
          self.stop()
          return
      level = max(1, min(5, level))
      if level == 1:
          self.stop()
          return
      if level == self.cur_level:
          eff = self.effects.get(level)
          if eff and not eff.isPlaying():
              eff.play()
          return
      # switch level
      self.stop()
      self.cur_level = level
      eff = self.effects.get(level)
      if eff:
          eff.setVolume(0.85)
          eff.play()
  \<close>
\<close>

definition play_for_level :: "(effect \<Rightarrow> exn + effect) \<Rightarrow> emf_sound \<Rightarrow> int \<Rightarrow> exn + emf_sound" where
  "play_for_level qstop s level0 =
     (if \<not> enabled s \<or> effects s = [] then stop qstop s
      else
        let level = max 1 (min 5 level0) in
        if level = 1 then stop qstop s
        else if level = cur_level s then
          (case map_of (effects s) level of
             None \<Rightarrow> Inr s
           | Some eff \<Rightarrow>
               if \<not> playing eff
               then Inr (s\<lparr>effects := AList.update level (eff\<lparr>playing := True\<rparr>) (effects s)\<rparr>)
               else Inr s)
        else
          bind_exn (stop qstop s) (\<lambda>s1.
            let s2 = s1\<lparr>cur_level := level\<rparr> in
            (case map_of (effects s2) level of
               None \<Rightarrow> Inr s2
             | Some eff \<Rightarrow>
                 Inr (s2\<lparr>effects :=
                        AList.update level (eff\<lparr>volume := 85 / 100, playing := True\<rparr>)
                          (effects s2)\<rparr>))))"

text \<open>
  What \<^verbatim>\<open>try: s.stop() except Exception: pass\<close> leaves of one effect: the stopped effect,
  or the effect as it was when the call raised.
\<close>

definition after_stop :: "(effect \<Rightarrow> exn + effect) \<Rightarrow> effect \<Rightarrow> effect" where
  "after_stop qstop e = (case qstop e of Inl x \<Rightarrow> e | Inr e' \<Rightarrow> e')"

text \<open>
  The states an \<^verbatim>\<open>EMFSound\<close> object can be in: the constructor's result, and the result
  of any of the three methods called on a state it can be in.
\<close>

inductive reachable :: "bool \<Rightarrow> (effect \<Rightarrow> exn + effect) \<Rightarrow> emf_sound \<Rightarrow> bool"
  for have_sound :: bool and qstop :: "effect \<Rightarrow> exn + effect" where
  constructed: "reachable have_sound qstop (EMFSound_init have_sound assets_dir enabled0)"
| after_set_muted:
    "reachable have_sound qstop s \<Longrightarrow> set_muted have_sound qstop s muted = Inr s'
     \<Longrightarrow> reachable have_sound qstop s'"
| after_stop_call:
    "reachable have_sound qstop s \<Longrightarrow> stop qstop s = Inr s'
     \<Longrightarrow> reachable have_sound qstop s'"
| after_play_for_level:
    "reachable have_sound qstop s \<Longrightarrow> play_for_level qstop s level = Inr s'
     \<Longrightarrow> reachable have_sound qstop s'"

text \<open>
  The invariant of the level, strengthened by what makes it inductive: sound is enabled
  only when \<^verbatim>\<open>HAVE_SOUND\<close> holds.
\<close>

definition level_inv :: "bool \<Rightarrow> emf_sound \<Rightarrow> bool" where
  "level_inv have_sound s =
     (1 \<le> cur_level s \<and> cur_level s \<le> 5 \<and> (enabled s \<or> cur_level s = 1)
      \<and> (have_sound \<or> \<not> enabled s))"

text \<open>Only the clip of the current level plays.\<close>

definition sfx_consistent :: "emf_sound \<Rightarrow> bool" where
  "sfx_consistent s = (\<forall>(k, e) \<in> set (effects s). playing e \<longrightarrow> k = cur_level s)"

section \<open>Module initialisation\<close>

text \<open>
  \<^verbatim>\<open>
  HAVE_SOUND = False
  try:
      from PySide6.QtMultimedia import QSoundEffect
      HAVE_SOUND = True
  except Exception:
      QSoundEffect = None
      HAVE_SOUND = False
  \<close>
  The import is the parameter; the result is the value of \<^verbatim>\<open>HAVE_SOUND\<close>.
\<close>

definition import_sound :: "exn + unit \<Rightarrow> exn + bool" where
  "import_sound import_QSoundEffect =
     try_except (bind_exn import_QSoundEffect (\<lambda>u. Inr True)) (\<lambda>x. Inr False)"

section \<open>The main window\<close>

text \<open>
  The table widget has four columns; a cell holds an item or nothing. Of an item the
  program sets the text and the alignment.
\<close>

datatype alignment = AlignDefault | AlignHCenter_VCenter | AlignRight_VCenter

record table_item =
  item_text :: string
  item_alignment :: alignment

type_synonym table_widget = "table_item option list list"

definition QTableWidgetItem :: "string \<Rightarrow> table_item" where
  "QTableWidgetItem s = \<lparr>item_text = s, item_alignment = AlignDefault\<rparr>"

definition insertRow :: "nat \<Rightarrow> table_widget \<Rightarrow> table_widget" where
  "insertRow i t = (if i \<le> length t then take i t @ [replicate 4 None] @ drop i t else t)"

definition setItem :: "nat \<Rightarrow> nat \<Rightarrow> table_item \<Rightarrow> table_widget \<Rightarrow> table_widget" where
  "setItem i c it t = (if i < length t \<and> c < 4 then t[i := (t ! i)[c := Some it]] else t)"

text \<open>
  The database module, the dialogs and the PDF export are other modules of the program.
  Their functions are parameters: a row of \<^verbatim>\<open>list_month\<close> is read at the keys
  \<^verbatim>\<open>date\<close>, \<^verbatim>\<open>category\<close>, \<^verbatim>\<open>description\<close> and \<^verbatim>\<open>amount\<close> and may hold more (the record is
  extensible); the settings are read at \<^verbatim>\<open>sound_enabled\<close> and \<^verbatim>\<open>currency\<close>; the database
  is a state of any type \<open>'db\<close>. \<open>fmt2\<close> is the text that the format \<^verbatim>\<open>:.2f\<close> gives a number.
\<close>

record expense_row =
  date :: string
  category :: string
  description :: "string option"
  amount :: pyfloat

record settings =
  sound_enabled :: bool
  currency :: string

record ('db, 'r) db_api =
  list_month :: "'db \<Rightarrow> int \<Rightarrow> int \<Rightarrow> 'r expense_row_scheme list"
  month_total :: "'db \<Rightarrow> int \<Rightarrow> int \<Rightarrow> pyfloat"
  get_settings :: "'db \<Rightarrow> settings"
  add_expense :: "string \<Rightarrow> string \<Rightarrow> string \<Rightarrow> pyfloat \<Rightarrow> 'db \<Rightarrow> 'db"

text \<open>
  The window: the sound wrapper, the three labels of the header (the dot by its style
  sheet), the year the year box shows and the index the month box is at, and the table.
\<close>

record main_window =
  sfx :: emf_sound
  lbl_total :: string
  emf_dot :: string
  lbl_emf :: string
  cmb_year :: int
  cmb_month :: nat
  table :: table_widget

definition current_y_m :: "main_window \<Rightarrow> int \<times> int" where
  "current_y_m w = (cmb_year w, int (cmb_month w) + 1)"

text \<open>
  \<^verbatim>\<open>
  def _set_emf_ui(self, level):
      colors={1:"#6eb6ff",2:"#36b24a",3:"#ffd84a",4:"#ff8f2b",5:"#ff3737"}
      self.emf_dot.setStyleSheet(f"background:{colors[level]};border-radius:7px;border:1px solid #2a2a2a;")
      self.lbl_emf.setText(f"EMF {level}")
  \<close>
  The subscript \<^verbatim>\<open>colors[level]\<close> raises \<^verbatim>\<open>KeyError\<close> at a level that is not a key.
\<close>

definition colors :: "(int \<times> string) list" where
  "colors = [(1, ''#6eb6ff''), (2, ''#36b24a''), (3, ''#ffd84a''), (4, ''#ff8f2b''),
             (5, ''#ff3737'')]"

definition set_emf_ui :: "main_window \<Rightarrow> int \<Rightarrow> exn + main_window" where
  "set_emf_ui w level =
     (case map_of colors level of
        None \<Rightarrow> Inl (KeyError (str_int level))
      | Some c \<Rightarrow>
          Inr (w\<lparr>emf_dot := ''background:'' @ c @ '';border-radius:7px;border:1px solid #2a2a2a;'',
                 lbl_emf := ''EMF '' @ str_int level\<rparr>))"

text \<open>
  \<^verbatim>\<open>
  def reload(self):
      y,m = self._current_y_m()
      rows = list_month(y,m)
      self.table.setRowCount(0)
      for r in rows:
          i = self.table.rowCount(); self.table.insertRow(i)
          self.table.setItem(i,0,QTableWidgetItem(r["date"]))
          self.table.setItem(i,1,QTableWidgetItem(r["category"]))
          desc = QTableWidgetItem(r["description"] or "")
          desc.setTextAlignment(Qt.AlignHCenter | Qt.AlignVCenter)
          self.table.setItem(i,2,desc)
          amt = QTableWidgetItem(f"{r['amount']:.2f}")
          amt.setTextAlignment(Qt.AlignRight | Qt.AlignVCenter)
          self.table.setItem(i,3,amt)
          self.table.setRowHeight(i,22)

      cur = get_settings()["currency"]; total = month_total(y,m)
      self.lbl_total.setText(f"Monthly Total: {cur}{total:.2f}")

      lvl = emf_level_from_total(total)
      self._set_emf_ui(lvl)
      self._sfx.play_for_level(lvl)
  \<close>
  \<open>add_row\<close> is the body of the loop; row heights are not part of the model.
\<close>

definition add_row :: "(pyfloat \<Rightarrow> string) \<Rightarrow> 'r expense_row_scheme \<Rightarrow> table_widget \<Rightarrow> table_widget" where
  "add_row fmt2 r t =
     (let i = length t;
          t = insertRow i t;
          t = setItem i 0 (QTableWidgetItem (date r)) t;
          t = setItem i 1 (QTableWidgetItem (category r)) t;
          desc = QTableWidgetItem (case description r of None \<Rightarrow> [] | Some d \<Rightarrow> d);
          desc = desc\<lparr>item_alignment := AlignHCenter_VCenter\<rparr>;
          t = setItem i 2 desc t;
          amt = QTableWidgetItem (fmt2 (amount r));
          amt = amt\<lparr>item_alignment := AlignRight_VCenter\<rparr>;
          t = setItem i 3 amt t
      in t)"

definition reload ::
  "('db, 'r) db_api \<Rightarrow> (pyfloat \<Rightarrow> string) \<Rightarrow> (effect \<Rightarrow> exn + effect) \<Rightarrow> 'db \<Rightarrow> main_window
     \<Rightarrow> exn + main_window" where
  "reload api fmt2 qstop db w =
     (let (y, m) = current_y_m w;
          rows = list_month api db y m;
          w = w\<lparr>table := foldl (\<lambda>t r. add_row fmt2 r t) [] rows\<rparr>;
          cur = currency (get_settings api db);
          tot = month_total api db y m;
          w = w\<lparr>lbl_total := ''Monthly Total: '' @ cur @ fmt2 tot\<rparr>;
          lvl = emf_level_from_total tot
      in bind_exn (set_emf_ui w lvl) (\<lambda>w.
         bind_exn (play_for_level qstop (sfx w) lvl) (\<lambda>s.
         Inr (w\<lparr>sfx := s\<rparr>))))"

text \<open>
  \<^verbatim>\<open>
  def on_add(self):
      dlg = AddExpenseDialog(self)
      if dlg.exec():
          v = dlg.values()
          add_expense(v["date"], v["category"], v["description"], v["amount"])
          self.reload()
  \<close>
  The dialog is its outcome: \<open>None\<close> when it was dismissed, the values when it was
  accepted.
\<close>

record add_values =
  v_date :: string
  v_category :: string
  v_description :: string
  v_amount :: pyfloat

definition on_add ::
  "('db, 'r) db_api \<Rightarrow> (pyfloat \<Rightarrow> string) \<Rightarrow> (effect \<Rightarrow> exn + effect) \<Rightarrow> 'v add_values_scheme option
     \<Rightarrow> 'db \<Rightarrow> main_window \<Rightarrow> exn + main_window \<times> 'db" where
  "on_add api fmt2 qstop dlg db w =
     (case dlg of
        None \<Rightarrow> Inr (w, db)
      | Some v \<Rightarrow>
          let db = add_expense api (v_date v) (v_category v) (v_description v) (v_amount v) db
          in bind_exn (reload api fmt2 qstop db w) (\<lambda>w. Inr (w, db)))"

text \<open>
  \<^verbatim>\<open>
  def on_export(self):
      y,m = self._current_y_m(); cur = get_settings()["currency"]
      path,_ = QFileDialog.getSaveFileName(self,"Save monthly PDF",f"expenses_{y}-{m:02d}.pdf","PDF (*.pdf)")
      if not path: return
      try:
          export_month_pdf(path,y,m,cur)
          QMessageBox.information(self,"Export","PDF saved.")
      except Exception as e:
          QMessageBox.critical(self,"Export failed",f"{e}")
  \<close>
  \<open>path\<close> is what the file dialog returned (empty when it was cancelled); the result is
  the message box shown, if any.
\<close>

datatype message_box = Information string string | Critical string string

definition on_export ::
  "(string \<Rightarrow> int \<Rightarrow> int \<Rightarrow> string \<Rightarrow> exn + unit) \<Rightarrow> ('db, 'r) db_api \<Rightarrow> string \<Rightarrow> 'db
     \<Rightarrow> main_window \<Rightarrow> exn + message_box option" where
  "on_export export_month_pdf api path db w =
     (let (y, m) = current_y_m w;
          cur = currency (get_settings api db)
      in if path = [] then Inr None
         else try_except
                (bind_exn (export_month_pdf path y m cur) (\<lambda>u.
                 Inr (Some (Information ''Export'' ''PDF saved.''))))
                (\<lambda>e. Inr (Some (Critical ''Export failed'' (str_exn e)))))"

section \<open>A sample installation\<close>

text \<open>
  Concrete parameters to run the model on: a database that is the list of its rows, with
  a monthly total of 1200; a formatter that knows the numbers of the sample; a PDF export
  that fails on a full disk; and an effect whose \<^verbatim>\<open>stop\<close> raises because the toolkit
  object behind it is gone.
\<close>

definition sample_api :: "(expense_row list, unit) db_api" where
  "sample_api =
     \<lparr>list_month = (\<lambda>db y m. db),
      month_total = (\<lambda>db y m. Fin 1200),
      get_settings = (\<lambda>db. \<lparr>sound_enabled = True, currency = ''$''\<rparr>),
      add_expense = (\<lambda>d c desc a db.
         db @ [\<lparr>date = d, category = c, description = Some desc, amount = a\<rparr>])\<rparr>"

definition sample_fmt2 :: "pyfloat \<Rightarrow> string" where
  "sample_fmt2 x = (if x = Fin 1200 then ''1200.00'' else if x = Fin 700 then ''700.00''
                    else if x = Fin 500 then ''500.00'' else ''nan'')"

definition sample_db :: "expense_row list" where
  "sample_db = [\<lparr>date = ''2024-03-01'', category = ''Rent'', description = None,
                 amount = Fin 700\<rparr>]"

definition sample_sound :: emf_sound where
  "sample_sound =
     \<lparr>enabled = True, cur_level = 2,
      effects = [(2, \<lparr>source = ''emf2.wav'', loop_count = 999999, volume = 85 / 100,
                     playing = True\<rparr>),
                 (3, \<lparr>source = ''emf3.wav'', loop_count = 999999, volume = 85 / 100,
                     playing = False\<rparr>)]\<rparr>"

definition sample_window :: main_window where
  "sample_window =
     \<lparr>sfx = sample_sound, lbl_total = ''Monthly Total: $0.00'',
      emf_dot = ''background:#6eb6ff;border-radius:7px;border:1px solid #2a2a2a;'',
      lbl_emf = ''EMF 1'', cmb_year = 2024, cmb_month = 2, table = []\<rparr>"

definition export_disk_full :: "string \<Rightarrow> int \<Rightarrow> int \<Rightarrow> string \<Rightarrow> exn + unit" where
  "export_disk_full path y m cur = Inl (Exception ''No space left on device'')"

definition QSoundEffect_stop_deleted :: "effect \<Rightarrow> exn + effect" where
  "QSoundEffect_stop_deleted e = Inl (Exception ''Internal C++ object already deleted.'')"

section \<open>Properties of the tier function\<close>

lemma emf_level_Fin:
  "emf_level_from_total (Fin x) =
     (if 2000 \<le> x then 5 else if 1500 \<le> x then 4 else if 1000 \<le> x then 3
      else if 500 \<le> x then 2 else 1)"
  by (simp add: emf_level_from_total_def py_ge_def)

lemma emf_level_special:
  "emf_level_from_total NaN = 1"
  "emf_level_from_total NegInf = 1"
  "emf_level_from_total PosInf = 5"
  by (simp_all add: emf_level_from_total_def py_ge_def)

lemma emf_level_cases:
  "emf_level_from_total t = 1 \<or> emf_level_from_total t = 2 \<or> emf_level_from_total t = 3
   \<or> emf_level_from_total t = 4 \<or> emf_level_from_total t = 5"
  by (simp add: emf_level_from_total_def)

lemma emf_level_bounds: "1 \<le> emf_level_from_total t \<and> emf_level_from_total t \<le> 5"
  by (simp add: emf_level_from_total_def)

text \<open>
  C1. For every monthly total the function returns an integer in \<open>{1, 2, 3, 4, 5}\<close>, and
  each of the five tiers is returned for some total: the set of all values the function
  takes is exactly that five-element set.
\<close>

theorem emf_level_five_tiers: "range emf_level_from_total = {1, 2, 3, 4, 5}"
proof
  show "range emf_level_from_total \<subseteq> {1, 2, 3, 4, 5}"
    using emf_level_cases by auto
next
  have "emf_level_from_total (Fin 0) = 1" "emf_level_from_total (Fin 500) = 2"
    "emf_level_from_total (Fin 1000) = 3" "emf_level_from_total (Fin 1500) = 4"
    "emf_level_from_total (Fin 2000) = 5"
    by (simp_all add: emf_level_Fin)
  then have "1 \<in> range emf_level_from_total" "2 \<in> range emf_level_from_total"
    "3 \<in> range emf_level_from_total" "4 \<in> range emf_level_from_total"
    "5 \<in> range emf_level_from_total"
    by (metis rangeI)+
  then show "{1, 2, 3, 4, 5} \<subseteq> range emf_level_from_total"
    by simp
qed



text \<open>
  C10. The tier is monotone nondecreasing in the total: whenever \<open>t1 <= t2\<close> holds in
  Python's ordering of numbers, the tier of \<open>t1\<close> is at most the tier of \<open>t2\<close>.
\<close>

theorem emf_level_mono:
  "py_le t1 t2 \<Longrightarrow> emf_level_from_total t1 \<le> emf_level_from_total t2"
proof (cases t1)
  case NaN
  assume "py_le t1 t2"
  with NaN show ?thesis by simp
next
  case NegInf
  then show ?thesis using emf_level_bounds [of t2] by (simp add: emf_level_special)
next
  case (Fin x)
  assume le: "py_le t1 t2"
  show ?thesis
  proof (cases t2)
    case (Fin y)
    with le \<open>t1 = Fin x\<close> have "x \<le> y" by simp
    then show ?thesis unfolding \<open>t1 = Fin x\<close> \<open>t2 = Fin y\<close> emf_level_Fin by simp
  next
    case PosInf
    then show ?thesis using emf_level_bounds [of t1] by (simp add: emf_level_special)
  qed (use le \<open>t1 = Fin x\<close> in simp_all)
next
  case PosInf
  assume "py_le t1 t2"
  with PosInf have "t2 = PosInf" by (cases t2) simp_all
  with PosInf show ?thesis by simp
qed

theorem emf_level_mono_witness:
  "py_le (Fin 499) (Fin 1500)
   \<and> emf_level_from_total (Fin 499) = 1 \<and> emf_level_from_total (Fin 1500) = 4
   \<and> emf_level_from_total (Fin 499) \<le> emf_level_from_total (Fin 1500)"
  using emf_level_mono [of "Fin 499" "Fin 1500"]
  by (simp add: emf_level_Fin)

section \<open>The sound wrapper: what the methods compute\<close>

lemma try_stop_eq: "try_stop qstop e = Inr (after_stop qstop e)"
  by (simp add: try_stop_def try_except_def after_stop_def split: sum.splits)

lemma stop_values_eq:
  "stop_values qstop es = Inr (map (\<lambda>(k, e). (k, after_stop qstop e)) es)"
  by (induction es) (auto simp: bind_exn_def try_stop_eq)

lemma stop_eq:
  "stop qstop s =
     Inr (s\<lparr>effects := map (\<lambda>(k, e). (k, after_stop qstop e)) (effects s), cur_level := 1\<rparr>)"
  by (simp add: stop_def stop_values_eq bind_exn_def)

lemma set_muted_eq:
  "set_muted have_sound qstop s muted =
     Inr (if muted
          then \<lparr>enabled = False, cur_level = 1,
                effects = map (\<lambda>(k, e). (k, after_stop qstop e)) (effects s)\<rparr>
          else s\<lparr>enabled := have_sound\<rparr>)"
  by (simp add: set_muted_def stop_eq)

lemma after_stop_nominal: "after_stop QSoundEffect_stop e = e\<lparr>playing := False\<rparr>"
  by (simp add: after_stop_def QSoundEffect_stop_def)

lemma stop_nominal:
  "stop QSoundEffect_stop s =
     Inr (s\<lparr>effects := map (\<lambda>(k, e). (k, e\<lparr>playing := False\<rparr>)) (effects s), cur_level := 1\<rparr>)"
  by (simp add: stop_eq after_stop_nominal)

lemma play_for_level_total: "\<exists>s'. play_for_level qstop s level = Inr s'"
  by (simp add: play_for_level_def stop_eq bind_exn_def Let_def split: option.splits)

lemma clamp_idem: "max 1 (min 5 (max 1 (min 5 (l::int)))) = max 1 (min 5 l)"
  by simp

lemma play_clamp: "play_for_level qstop s level = play_for_level qstop s (max 1 (min 5 level))"
  unfolding play_for_level_def clamp_idem ..

lemma set_update_subset: "set (AList.update k v al) \<subseteq> insert (k, v) (set al)"
  by (induction al) auto

lemma map_of_stopped:
  "map_of (map (\<lambda>(k, e). (k, f e)) es) k = map_option f (map_of es k)"
  by (induction es) auto

lemma play_quiet:
  assumes "\<not> enabled s \<or> effects s = [] \<or> max 1 (min 5 level) = 1"
  shows "play_for_level qstop s level = stop qstop s"
  using assms by (auto simp: play_for_level_def Let_def)

lemma play_same:
  assumes "enabled s" "effects s \<noteq> []" "2 \<le> level" "level \<le> 5" "level = cur_level s"
  shows "play_for_level qstop s level =
     Inr (case map_of (effects s) level of
            None \<Rightarrow> s
          | Some eff \<Rightarrow>
              if playing eff then s
              else s\<lparr>effects := AList.update level (eff\<lparr>playing := True\<rparr>) (effects s)\<rparr>)"
proof -
  from assms have "max 1 (min 5 level) = level" by simp
  with assms show ?thesis
    by (simp add: play_for_level_def Let_def split: option.splits)
qed

lemma play_switch:
  assumes "enabled s" "effects s \<noteq> []" "2 \<le> level" "level \<le> 5" "level \<noteq> cur_level s"
  shows "play_for_level QSoundEffect_stop s level =
     Inr (case map_of (effects s) level of
            None \<Rightarrow> s\<lparr>effects := map (\<lambda>(k, e). (k, e\<lparr>playing := False\<rparr>)) (effects s),
                       cur_level := level\<rparr>
          | Some eff \<Rightarrow>
              s\<lparr>effects := AList.update level (eff\<lparr>volume := 85 / 100, playing := True\<rparr>)
                             (map (\<lambda>(k, e). (k, e\<lparr>playing := False\<rparr>)) (effects s)),
                cur_level := level\<rparr>)"
proof -
  from assms have "max 1 (min 5 level) = level" by simp
  with assms show ?thesis
    by (simp add: play_for_level_def Let_def stop_nominal bind_exn_def map_of_stopped
          split: option.splits)
qed

section \<open>The sound wrapper: invariants\<close>

lemma level_inv_init: "level_inv have_sound (EMFSound_init have_sound assets_dir enabled0)"
  by (auto simp: level_inv_def EMFSound_init_def Let_def)

lemma level_inv_stop: "stop qstop s = Inr s' \<Longrightarrow> level_inv hs s \<Longrightarrow> level_inv hs s'"
  by (auto simp: stop_eq level_inv_def)

lemma level_inv_set_muted:
  "set_muted hs qstop s muted = Inr s' \<Longrightarrow> level_inv hs s \<Longrightarrow> level_inv hs s'"
  by (auto simp: set_muted_eq level_inv_def split: if_splits)

lemma level_inv_play:
  "play_for_level qstop s level = Inr s' \<Longrightarrow> level_inv hs s \<Longrightarrow> level_inv hs s'"
  by (auto simp: play_for_level_def stop_eq bind_exn_def Let_def level_inv_def
      split: if_splits option.splits)

lemma reachable_level_inv: "reachable hs qstop s \<Longrightarrow> level_inv hs s"
  by (induction rule: reachable.induct)
     (auto intro: level_inv_init level_inv_stop level_inv_set_muted level_inv_play)

lemma load_effect_silent:
  "\<forall>(k, e) \<in> set effs. \<not> playing e \<Longrightarrow> \<forall>(k, e) \<in> set (load_effect assets_dir effs lvl). \<not> playing e"
  using set_update_subset
    [of lvl "\<lparr>source = ''emf'' @ str_int lvl @ ''.wav'', loop_count = 999999,
              volume = 85 / 100, playing = False\<rparr>" effs]
  by (auto simp: load_effect_def Let_def)

lemma foldl_load_silent:
  "\<forall>(k, e) \<in> set effs. \<not> playing e
   \<Longrightarrow> \<forall>(k, e) \<in> set (foldl (load_effect assets_dir) effs lvls). \<not> playing e"
proof (induction lvls arbitrary: effs)
  case Nil
  then show ?case by simp
next
  case (Cons lvl lvls)
  from Cons.prems have "\<forall>(k, e) \<in> set (load_effect assets_dir effs lvl). \<not> playing e"
    by (rule load_effect_silent)
  then show ?case using Cons.IH by simp
qed

lemma consistent_init: "sfx_consistent (EMFSound_init have_sound assets_dir enabled0)"
  using foldl_load_silent [of "[]" assets_dir "[2, 3, 4, 5]"]
  by (auto simp: sfx_consistent_def EMFSound_init_def Let_def)

lemma consistent_stop:
  "stop QSoundEffect_stop s = Inr s' \<Longrightarrow> sfx_consistent s'"
  by (auto simp: stop_nominal sfx_consistent_def)

lemma consistent_set_muted:
  "set_muted hs QSoundEffect_stop s muted = Inr s' \<Longrightarrow> sfx_consistent s \<Longrightarrow> sfx_consistent s'"
  by (auto simp: set_muted_eq after_stop_nominal sfx_consistent_def split: if_splits)

lemma consistent_play:
  assumes "play_for_level QSoundEffect_stop s level = Inr s'" "sfx_consistent s"
  shows "sfx_consistent s'"
proof -
  define c where "c = max 1 (min 5 level)"
  have run: "play_for_level QSoundEffect_stop s c = Inr s'"
    using assms(1) play_clamp [of QSoundEffect_stop s level] by (simp add: c_def)
  have c15: "1 \<le> c" "c \<le> 5" by (simp_all add: c_def)
  have cc: "max 1 (min 5 c) = c" using c15 by simp
  consider (quiet) "\<not> enabled s \<or> effects s = [] \<or> c = 1"
    | (same) "enabled s" "effects s \<noteq> []" "2 \<le> c" "c = cur_level s"
    | (switch) "enabled s" "effects s \<noteq> []" "2 \<le> c" "c \<noteq> cur_level s"
    using c15 by fastforce
  then show ?thesis
  proof cases
    case quiet
    then have "play_for_level QSoundEffect_stop s c = stop QSoundEffect_stop s"
      by (intro play_quiet) (simp add: cc)
    with run show ?thesis by (simp add: consistent_stop)
  next
    case same
    show ?thesis
    proof (cases "map_of (effects s) c")
      case None
      with run same c15 assms(2) show ?thesis by (simp add: play_same)
    next
      case (Some eff)
      have "s' = s \<or> s' = s\<lparr>effects := AList.update c (eff\<lparr>playing := True\<rparr>) (effects s)\<rparr>"
        using run same c15 Some by (auto simp: play_same split: if_splits)
      then show ?thesis
      proof
        assume "s' = s"
        with assms(2) show ?thesis by simp
      next
        assume s': "s' = s\<lparr>effects := AList.update c (eff\<lparr>playing := True\<rparr>) (effects s)\<rparr>"
        show ?thesis
          using set_update_subset [of c "eff\<lparr>playing := True\<rparr>" "effects s"] assms(2) same(4)
          unfolding s' sfx_consistent_def by auto
      qed
    qed
  next
    case switch
    let ?quiet = "map (\<lambda>(k, e). (k, e\<lparr>playing := False\<rparr>)) (effects s)"
    show ?thesis
    proof (cases "map_of (effects s) c")
      case None
      with run switch c15 have "s' = s\<lparr>effects := ?quiet, cur_level := c\<rparr>"
        by (simp add: play_switch)
      then show ?thesis by (auto simp: sfx_consistent_def)
    next
      case (Some eff)
      with run switch c15
      have s': "s' = s\<lparr>effects := AList.update c (eff\<lparr>volume := 85 / 100, playing := True\<rparr>) ?quiet,
                         cur_level := c\<rparr>"
        by (simp add: play_switch)
      show ?thesis
        using set_update_subset [of c "eff\<lparr>volume := 85 / 100, playing := True\<rparr>" ?quiet]
        unfolding s' sfx_consistent_def by auto
    qed
  qed
qed

lemma reachable_consistent: "reachable hs QSoundEffect_stop s \<Longrightarrow> sfx_consistent s"
  by (induction rule: reachable.induct)
     (auto intro: consistent_init consistent_stop consistent_set_muted consistent_play)

text \<open>
  The clips are loaded by the constructor only. An object constructed with sound disabled
  and unmuted later is enabled with no clip loaded, which is the state in which
  \<^verbatim>\<open>play_for_level\<close> stops and starts nothing.
\<close>

lemma unmuted_after_disabled_start:
  "set_muted True qstop (EMFSound_init True assets_dir False) False
     = Inr \<lparr>enabled = True, cur_level = 1, effects = []\<rparr>"
  by (simp add: set_muted_def EMFSound_init_def)

section \<open>The sound wrapper: the claims\<close>

text \<open>
  C8. \<^verbatim>\<open>play_for_level\<close> is total over all integer arguments: a call with any level
  does what the call with the level clamped to \<open>[1, 5]\<close> does, and every call returns,
  whatever effects are loaded or missing and even when an effect's \<^verbatim>\<open>stop\<close> raises.
\<close>

theorem play_for_level_clamps:
  "play_for_level qstop s level = play_for_level qstop s (max 1 (min 5 level))
   \<and> 1 \<le> max 1 (min 5 level) \<and> max 1 (min 5 level) \<le> 5
   \<and> (\<exists>s'. play_for_level qstop s level = Inr s')"
  using play_clamp [of qstop s level] play_for_level_total [of qstop s level] by simp

theorem play_for_level_clamps_witness:
  "play_for_level QSoundEffect_stop
     \<lparr>enabled = True, cur_level = 2,
      effects = [(2, \<lparr>source = ''emf2.wav'', loop_count = 999999, volume = 85 / 100,
                     playing = True\<rparr>)]\<rparr> 9
   = play_for_level QSoundEffect_stop
     \<lparr>enabled = True, cur_level = 2,
      effects = [(2, \<lparr>source = ''emf2.wav'', loop_count = 999999, volume = 85 / 100,
                     playing = True\<rparr>)]\<rparr> 5
   \<and> play_for_level QSoundEffect_stop
     \<lparr>enabled = True, cur_level = 2,
      effects = [(2, \<lparr>source = ''emf2.wav'', loop_count = 999999, volume = 85 / 100,
                     playing = True\<rparr>)]\<rparr> 9
   = Inr \<lparr>enabled = True, cur_level = 5,
          effects = [(2, \<lparr>source = ''emf2.wav'', loop_count = 999999, volume = 85 / 100,
                         playing = False\<rparr>)]\<rparr>"
  using play_for_level_clamps [of QSoundEffect_stop
     "\<lparr>enabled = True, cur_level = 2,
      effects = [(2, \<lparr>source = ''emf2.wav'', loop_count = 999999, volume = 85 / 100,
                     playing = True\<rparr>)]\<rparr>" 9]
  by (simp add: play_for_level_def stop_def stop_values.simps bind_exn_def try_stop_def
        try_except_def QSoundEffect_stop_def)

text \<open>
  C9. In every state an \<^verbatim>\<open>EMFSound\<close> object can be in (after construction and after any
  sequence of \<^verbatim>\<open>set_muted\<close>, \<^verbatim>\<open>stop\<close> and \<^verbatim>\<open>play_for_level\<close> calls), \<^verbatim>\<open>cur_level\<close> lies in
  \<open>[1, 5]\<close>, and \<^verbatim>\<open>cur_level\<close> is 1 whenever \<^verbatim>\<open>enabled\<close> is false.
\<close>

theorem cur_level_invariant:
  "reachable have_sound qstop s \<Longrightarrow>
     1 \<le> cur_level s \<and> cur_level s \<le> 5 \<and> (\<not> enabled s \<longrightarrow> cur_level s = 1)"
  using reachable_level_inv [of have_sound qstop s] by (auto simp: level_inv_def)

theorem cur_level_invariant_witness:
  "reachable True QSoundEffect_stop
     \<lparr>enabled = True, cur_level = 3,
      effects = [(3, \<lparr>source = ''emf3.wav'', loop_count = 999999, volume = 85 / 100,
                     playing = True\<rparr>)]\<rparr>
   \<and> reachable True QSoundEffect_stop
     \<lparr>enabled = False, cur_level = 1,
      effects = [(3, \<lparr>source = ''emf3.wav'', loop_count = 999999, volume = 85 / 100,
                     playing = False\<rparr>)]\<rparr>
   \<and> (1::int) \<le> 3 \<and> (3::int) \<le> 5"
proof -
  let ?s0 = "EMFSound_init True [''emf3.wav''] True"
  let ?s1 = "\<lparr>enabled = True, cur_level = 3,
      effects = [(3, \<lparr>source = ''emf3.wav'', loop_count = 999999, volume = 85 / 100,
                     playing = True\<rparr>)]\<rparr>"
  let ?s2 = "\<lparr>enabled = False, cur_level = 1,
      effects = [(3, \<lparr>source = ''emf3.wav'', loop_count = 999999, volume = 85 / 100,
                     playing = False\<rparr>)]\<rparr>"
  have r0: "reachable True QSoundEffect_stop ?s0"
    by (rule reachable.constructed)
  have "play_for_level QSoundEffect_stop ?s0 3 = Inr ?s1"
    by (simp add: play_for_level_def stop_def bind_exn_def try_stop_def try_except_def
          QSoundEffect_stop_def EMFSound_init_def load_effect_def str_int_def str_nat.simps
          digit_char_def)
  with r0 have r1: "reachable True QSoundEffect_stop ?s1"
    by (rule reachable.after_play_for_level)
  have "set_muted True QSoundEffect_stop ?s1 True = Inr ?s2"
    by (simp add: set_muted_def stop_def bind_exn_def try_stop_def try_except_def
          QSoundEffect_stop_def)
  with r1 have r2: "reachable True QSoundEffect_stop ?s2"
    by (rule reachable.after_set_muted)
  from r1 r2 cur_level_invariant [OF r1] cur_level_invariant [OF r2] show ?thesis
    by simp
qed

text \<open>
  C3, as the code has it. With every effect's \<^verbatim>\<open>stop\<close> working, a call
  \<^verbatim>\<open>play_for_level(level)\<close> returns, and: if sound is disabled, or no clip is loaded, or
  the level clamped to \<open>[1, 5]\<close> is 1, every effect is stopped and \<^verbatim>\<open>cur_level\<close> is 1; if
  sound is enabled, at least one clip is loaded, the level is in 2..5 and differs from
  \<^verbatim>\<open>cur_level\<close>, then \<^verbatim>\<open>cur_level\<close> becomes the level, every clip of another level is
  stopped, and the clip loaded for the level, when there is one, is playing at volume 0.85.
\<close>

theorem play_for_level_starts_and_stops:
  "\<exists>s'. play_for_level QSoundEffect_stop s level = Inr s' \<and>
     (\<not> enabled s \<or> effects s = [] \<or> max 1 (min 5 level) = 1 \<longrightarrow>
        cur_level s' = 1 \<and> (\<forall>(k, e) \<in> set (effects s'). \<not> playing e)) \<and>
     (enabled s \<and> effects s \<noteq> [] \<and> 2 \<le> level \<and> level \<le> 5 \<and> level \<noteq> cur_level s \<longrightarrow>
        cur_level s' = level \<and>
        (\<forall>(k, e) \<in> set (effects s'). playing e \<longrightarrow> k = level) \<and>
        (\<forall>eff. map_of (effects s) level = Some eff \<longrightarrow>
           map_of (effects s') level = Some (eff\<lparr>volume := 85 / 100, playing := True\<rparr>)))"
proof -
  let ?quiet = "map (\<lambda>(k, e). (k, e\<lparr>playing := False\<rparr>)) (effects s)"
  consider (quiet) "\<not> enabled s \<or> effects s = [] \<or> max 1 (min 5 level) = 1"
    | (switch) "enabled s" "effects s \<noteq> []" "2 \<le> level" "level \<le> 5" "level \<noteq> cur_level s"
    | (other) "\<not> (\<not> enabled s \<or> effects s = [] \<or> max 1 (min 5 level) = 1)"
        "\<not> (enabled s \<and> effects s \<noteq> [] \<and> 2 \<le> level \<and> level \<le> 5 \<and> level \<noteq> cur_level s)"
    by blast
  then show ?thesis
  proof cases
    case quiet
    then have "\<not> (2 \<le> level \<and> level \<le> 5) \<or> \<not> enabled s \<or> effects s = []" by auto
    with quiet show ?thesis
      by (auto simp: play_quiet stop_nominal)
  next
    case switch
    then have nq: "\<not> (\<not> enabled s \<or> effects s = [] \<or> max 1 (min 5 level) = 1)" by simp
    show ?thesis
    proof (cases "map_of (effects s) level")
      case None
      with switch nq show ?thesis
        by (auto simp: play_switch)
    next
      case (Some eff)
      have "\<And>k e. (k, e) \<in> set (AList.update level (eff\<lparr>volume := 85 / 100, playing := True\<rparr>) ?quiet)
              \<Longrightarrow> playing e \<Longrightarrow> k = level"
        using set_update_subset [of level "eff\<lparr>volume := 85 / 100, playing := True\<rparr>" ?quiet]
        by auto
      with Some switch nq show ?thesis
        by (auto simp: play_switch update_conv')
    qed
  next
    case other
    from play_for_level_total obtain s' where "play_for_level QSoundEffect_stop s level = Inr s'"
      by blast
    with other show ?thesis by auto
  qed
qed

theorem play_for_level_starts_and_stops_witness:
  "play_for_level QSoundEffect_stop
     \<lparr>enabled = True, cur_level = 2,
      effects = [(2, \<lparr>source = ''emf2.wav'', loop_count = 999999, volume = 85 / 100,
                     playing = True\<rparr>),
                 (4, \<lparr>source = ''emf4.wav'', loop_count = 999999, volume = 85 / 100,
                     playing = False\<rparr>)]\<rparr> 4
   = Inr \<lparr>enabled = True, cur_level = 4,
      effects = [(2, \<lparr>source = ''emf2.wav'', loop_count = 999999, volume = 85 / 100,
                     playing = False\<rparr>),
                 (4, \<lparr>source = ''emf4.wav'', loop_count = 999999, volume = 85 / 100,
                     playing = True\<rparr>)]\<rparr>
   \<and> play_for_level QSoundEffect_stop
     \<lparr>enabled = True, cur_level = 2,
      effects = [(2, \<lparr>source = ''emf2.wav'', loop_count = 999999, volume = 85 / 100,
                     playing = True\<rparr>),
                 (4, \<lparr>source = ''emf4.wav'', loop_count = 999999, volume = 85 / 100,
                     playing = False\<rparr>)]\<rparr> 0
   = Inr \<lparr>enabled = True, cur_level = 1,
      effects = [(2, \<lparr>source = ''emf2.wav'', loop_count = 999999, volume = 85 / 100,
                     playing = False\<rparr>),
                 (4, \<lparr>source = ''emf4.wav'', loop_count = 999999, volume = 85 / 100,
                     playing = False\<rparr>)]\<rparr>"
  using play_for_level_starts_and_stops [of
     "\<lparr>enabled = True, cur_level = 2,
      effects = [(2, \<lparr>source = ''emf2.wav'', loop_count = 999999, volume = 85 / 100,
                     playing = True\<rparr>),
                 (4, \<lparr>source = ''emf4.wav'', loop_count = 999999, volume = 85 / 100,
                     playing = False\<rparr>)]\<rparr>" 4]
  by (simp add: play_for_level_def stop_def stop_values.simps bind_exn_def try_stop_def
        try_except_def QSoundEffect_stop_def)

text \<open>
  C3 as stated fails where sound is enabled and no clip is loaded (the constructor found
  no wav file): the level 3 differs from the current level 1, yet \<^verbatim>\<open>cur_level\<close> stays 1
  and nothing is started.
\<close>

theorem play_for_level_counterexample:
  "enabled (EMFSound_init True [] True) \<and> (2::int) \<le> 3 \<and> (3::int) \<le> 5
   \<and> 3 \<noteq> cur_level (EMFSound_init True [] True)
   \<and> play_for_level QSoundEffect_stop (EMFSound_init True [] True) 3
       = Inr \<lparr>enabled = True, cur_level = 1, effects = []\<rparr>"
  by (simp add: EMFSound_init_def load_effect_def play_for_level_def stop_def bind_exn_def)

section \<open>The main window: what reload computes\<close>

lemma insertRow_end: "insertRow (length t) t = t @ [[None, None, None, None]]"
  by (simp add: insertRow_def numeral_eq_Suc)

lemma setItem_last:
  "c < 4 \<Longrightarrow> setItem (length t) c it (t @ [row]) = t @ [row[c := Some it]]"
  by (simp add: setItem_def)

lemma add_row_eq:
  "add_row fmt2 r t =
     t @ [[Some \<lparr>item_text = date r, item_alignment = AlignDefault\<rparr>,
           Some \<lparr>item_text = category r, item_alignment = AlignDefault\<rparr>,
           Some \<lparr>item_text = (case description r of None \<Rightarrow> [] | Some d \<Rightarrow> d),
                 item_alignment = AlignHCenter_VCenter\<rparr>,
           Some \<lparr>item_text = fmt2 (amount r), item_alignment = AlignRight_VCenter\<rparr>]]"
proof -
  have upd: "[a, b, c, d][0 := x] = [x, b, c, d]" "[a, b, c, d][1 := x] = [a, x, c, d]"
    "[a, b, c, d][2 := x] = [a, b, x, d]" "[a, b, c, d][3 := x] = [a, b, c, x]"
    for a b c d x :: "table_item option"
    by (simp_all add: numeral_eq_Suc)
  show ?thesis
    by (simp add: add_row_def Let_def insertRow_end setItem_last upd QTableWidgetItem_def)
qed

lemma foldl_add_row:
  "foldl (\<lambda>t r. add_row fmt2 r t) t rows =
     t @ map (\<lambda>r. [Some \<lparr>item_text = date r, item_alignment = AlignDefault\<rparr>,
                    Some \<lparr>item_text = category r, item_alignment = AlignDefault\<rparr>,
                    Some \<lparr>item_text = (case description r of None \<Rightarrow> [] | Some d \<Rightarrow> d),
                          item_alignment = AlignHCenter_VCenter\<rparr>,
                    Some \<lparr>item_text = fmt2 (amount r), item_alignment = AlignRight_VCenter\<rparr>])
             rows"
  by (induction rows arbitrary: t) (simp_all add: add_row_eq)

lemma colors_of_tier: "\<exists>c. map_of colors (emf_level_from_total t) = Some c"
  using emf_level_cases [of t] by (auto simp: colors_def)

lemma reload_eq:
  assumes "map_of colors (emf_level_from_total (month_total api db (cmb_year w) (int (cmb_month w) + 1)))
           = Some c"
    and "play_for_level qstop (sfx w)
           (emf_level_from_total (month_total api db (cmb_year w) (int (cmb_month w) + 1))) = Inr s'"
  shows "reload api fmt2 qstop db w =
     Inr (w\<lparr>table := foldl (\<lambda>t r. add_row fmt2 r t) []
                        (list_month api db (cmb_year w) (int (cmb_month w) + 1)),
            lbl_total := ''Monthly Total: '' @ currency (get_settings api db)
                         @ fmt2 (month_total api db (cmb_year w) (int (cmb_month w) + 1)),
            emf_dot := ''background:'' @ c @ '';border-radius:7px;border:1px solid #2a2a2a;'',
            lbl_emf := ''EMF '' @ str_int
                         (emf_level_from_total (month_total api db (cmb_year w) (int (cmb_month w) + 1))),
            sfx := s'\<rparr>)"
  using assms by (simp add: reload_def current_y_m_def Let_def set_emf_ui_def bind_exn_def)

lemma reload_total: "\<exists>w'. reload api fmt2 qstop db w = Inr w'"
proof -
  obtain c where "map_of colors (emf_level_from_total
      (month_total api db (cmb_year w) (int (cmb_month w) + 1))) = Some c"
    using colors_of_tier by blast
  moreover obtain s' where "play_for_level qstop (sfx w)
      (emf_level_from_total (month_total api db (cmb_year w) (int (cmb_month w) + 1))) = Inr s'"
    using play_for_level_total by blast
  ultimately show ?thesis by (simp add: reload_eq)
qed



section \<open>The main window: the claims\<close>



text \<open>
  C5, as the code has it. \<^verbatim>\<open>on_export\<close> never raises: with a path chosen, every exception
  of \<^verbatim>\<open>export_month_pdf\<close> ends in the critical message box carrying its text, success ends
  in the information box, and a cancelled dialog shows nothing. It is not the only handler:
  \<^verbatim>\<open>EMFSound.stop\<close> discards every exception an effect's \<^verbatim>\<open>stop\<close> raises, leaves that effect
  as it was, goes on to the others and resets \<^verbatim>\<open>cur_level\<close>; and a failed import of
  \<^verbatim>\<open>QSoundEffect\<close> is caught and sets \<^verbatim>\<open>HAVE_SOUND\<close> to false.
\<close>

theorem exception_handlers:
  fixes api :: "('db, 'r) db_api"
  shows "(\<exists>r. on_export export_month_pdf api path db w = Inr r)
     \<and> (path \<noteq> []
          \<and> export_month_pdf path (cmb_year w) (int (cmb_month w) + 1)
                (currency (get_settings api db)) = Inl e \<longrightarrow>
          on_export export_month_pdf api path db w
            = Inr (Some (Critical ''Export failed'' (str_exn e))))
     \<and> (path \<noteq> []
          \<and> export_month_pdf path (cmb_year w) (int (cmb_month w) + 1)
                (currency (get_settings api db)) = Inr () \<longrightarrow>
          on_export export_month_pdf api path db w
            = Inr (Some (Information ''Export'' ''PDF saved.'')))
     \<and> (path = [] \<longrightarrow> on_export export_month_pdf api path db w = Inr None)
     \<and> stop qstop s =
         Inr (s\<lparr>effects := map (\<lambda>(k, e). (k, case qstop e of Inl x \<Rightarrow> e | Inr e' \<Rightarrow> e'))
                             (effects s),
                cur_level := 1\<rparr>)
     \<and> import_sound (Inl x) = Inr False \<and> import_sound (Inr ()) = Inr True"
proof -
  have "\<exists>r. on_export export_month_pdf api path db w = Inr r"
    by (simp add: on_export_def current_y_m_def Let_def try_except_def bind_exn_def
          split: sum.splits)
  moreover have "stop qstop s =
         Inr (s\<lparr>effects := map (\<lambda>(k, e). (k, case qstop e of Inl x \<Rightarrow> e | Inr e' \<Rightarrow> e'))
                             (effects s),
                cur_level := 1\<rparr>)"
    using stop_eq [of qstop s] unfolding after_stop_def .
  ultimately show ?thesis
    by (simp add: on_export_def current_y_m_def Let_def try_except_def
          bind_exn_def import_sound_def)
qed

theorem exception_handlers_witness:
  "on_export export_disk_full sample_api ''march.pdf'' sample_db sample_window
     = Inr (Some (Critical ''Export failed'' ''No space left on device''))
   \<and> on_export export_disk_full sample_api [] sample_db sample_window = Inr None
   \<and> stop QSoundEffect_stop_deleted sample_sound = Inr (sample_sound\<lparr>cur_level := 1\<rparr>)"
  using exception_handlers [where export_month_pdf = export_disk_full and api = sample_api
      and path = "''march.pdf''" and db = sample_db and w = sample_window
      and e = "Exception ''No space left on device''" and qstop = QSoundEffect_stop_deleted
      and s = sample_sound]
    exception_handlers [where export_month_pdf = export_disk_full and api = sample_api
      and path = "[]" and db = sample_db and w = sample_window]
  by (simp add: export_disk_full_def QSoundEffect_stop_deleted_def sample_sound_def)

text \<open>
  C5 as stated fails at \<^verbatim>\<open>EMFSound.stop\<close>: the effect's \<^verbatim>\<open>stop\<close> raises, and the method
  catches the exception and returns, with the clip still playing and \<^verbatim>\<open>cur_level\<close> reset.
\<close>

theorem stop_catches_counterexample:
  "QSoundEffect_stop_deleted
       \<lparr>source = ''emf2.wav'', loop_count = 999999, volume = 85 / 100, playing = True\<rparr>
     = Inl (Exception ''Internal C++ object already deleted.'')
   \<and> stop QSoundEffect_stop_deleted
       \<lparr>enabled = True, cur_level = 2,
        effects = [(2, \<lparr>source = ''emf2.wav'', loop_count = 999999, volume = 85 / 100,
                       playing = True\<rparr>)]\<rparr>
     = Inr \<lparr>enabled = True, cur_level = 1,
            effects = [(2, \<lparr>source = ''emf2.wav'', loop_count = 999999, volume = 85 / 100,
                           playing = True\<rparr>)]\<rparr>"
  by (simp add: QSoundEffect_stop_deleted_def stop_def bind_exn_def try_stop_def
        try_except_def)

text \<open>
  C6. \<^verbatim>\<open>on_add\<close>, when the dialog is accepted, hands \<^verbatim>\<open>add_expense\<close> the four values
  date, category, description and amount and then reloads, and does nothing when the dialog
  is dismissed. A reload returns with one table row per record of the month, in order,
  each of exactly four cells: the date, the category, the description (empty when absent)
  and the amount to two decimals, whatever else the record holds.
\<close>

theorem expense_four_fields:
  fixes api :: "('db, 'r) db_api" and v :: "'v add_values_scheme"
  shows "on_add api fmt2 qstop (Some v) db w =
       bind_exn (reload api fmt2 qstop
                   (add_expense api (v_date v) (v_category v) (v_description v) (v_amount v) db) w)
         (\<lambda>w'. Inr (w', add_expense api (v_date v) (v_category v) (v_description v)
                           (v_amount v) db))
     \<and> on_add api fmt2 qstop (None :: 'v add_values_scheme option) db w = Inr (w, db)
     \<and> (\<exists>w'. reload api fmt2 qstop db w = Inr w'
           \<and> table w' =
               map (\<lambda>r. [Some \<lparr>item_text = date r, item_alignment = AlignDefault\<rparr>,
                          Some \<lparr>item_text = category r, item_alignment = AlignDefault\<rparr>,
                          Some \<lparr>item_text = (case description r of None \<Rightarrow> [] | Some d \<Rightarrow> d),
                                item_alignment = AlignHCenter_VCenter\<rparr>,
                          Some \<lparr>item_text = fmt2 (amount r),
                                item_alignment = AlignRight_VCenter\<rparr>])
                 (list_month api db (cmb_year w) (int (cmb_month w) + 1))
           \<and> (\<forall>row \<in> set (table w'). length row = 4))"
proof -
  obtain c where c: "map_of colors (emf_level_from_total
      (month_total api db (cmb_year w) (int (cmb_month w) + 1))) = Some c"
    using colors_of_tier by blast
  obtain s' where s': "play_for_level qstop (sfx w)
      (emf_level_from_total (month_total api db (cmb_year w) (int (cmb_month w) + 1))) = Inr s'"
    using play_for_level_total by blast
  have "\<exists>w'. reload api fmt2 qstop db w = Inr w'
           \<and> table w' =
               map (\<lambda>r. [Some \<lparr>item_text = date r, item_alignment = AlignDefault\<rparr>,
                          Some \<lparr>item_text = category r, item_alignment = AlignDefault\<rparr>,
                          Some \<lparr>item_text = (case description r of None \<Rightarrow> [] | Some d \<Rightarrow> d),
                                item_alignment = AlignHCenter_VCenter\<rparr>,
                          Some \<lparr>item_text = fmt2 (amount r),
                                item_alignment = AlignRight_VCenter\<rparr>])
                 (list_month api db (cmb_year w) (int (cmb_month w) + 1))
           \<and> (\<forall>row \<in> set (table w'). length row = 4)"
    using foldl_add_row [of fmt2 "[]" "list_month api db (cmb_year w) (int (cmb_month w) + 1)"]
    by (auto simp: reload_eq [OF c s'])
  then show ?thesis
    by (simp add: on_add_def Let_def)
qed

theorem expense_four_fields_witness:
  "on_add sample_api sample_fmt2 QSoundEffect_stop
      (Some \<lparr>v_date = ''2024-03-09'', v_category = ''Food'', v_description = ''pizza'',
             v_amount = Fin 500\<rparr>) sample_db sample_window
   = bind_exn (reload sample_api sample_fmt2 QSoundEffect_stop
        [\<lparr>date = ''2024-03-01'', category = ''Rent'', description = None, amount = Fin 700\<rparr>,
         \<lparr>date = ''2024-03-09'', category = ''Food'', description = Some ''pizza'',
          amount = Fin 500\<rparr>] sample_window)
       (\<lambda>w'. Inr (w',
        [\<lparr>date = ''2024-03-01'', category = ''Rent'', description = None, amount = Fin 700\<rparr>,
         \<lparr>date = ''2024-03-09'', category = ''Food'', description = Some ''pizza'',
          amount = Fin 500\<rparr>]))
   \<and> (\<exists>w'. reload sample_api sample_fmt2 QSoundEffect_stop
        [\<lparr>date = ''2024-03-01'', category = ''Rent'', description = None, amount = Fin 700\<rparr>,
         \<lparr>date = ''2024-03-09'', category = ''Food'', description = Some ''pizza'',
          amount = Fin 500\<rparr>] sample_window = Inr w'
      \<and> table w' =
          [[Some \<lparr>item_text = ''2024-03-01'', item_alignment = AlignDefault\<rparr>,
            Some \<lparr>item_text = ''Rent'', item_alignment = AlignDefault\<rparr>,
            Some \<lparr>item_text = [], item_alignment = AlignHCenter_VCenter\<rparr>,
            Some \<lparr>item_text = ''700.00'', item_alignment = AlignRight_VCenter\<rparr>],
           [Some \<lparr>item_text = ''2024-03-09'', item_alignment = AlignDefault\<rparr>,
            Some \<lparr>item_text = ''Food'', item_alignment = AlignDefault\<rparr>,
            Some \<lparr>item_text = ''pizza'', item_alignment = AlignHCenter_VCenter\<rparr>,
            Some \<lparr>item_text = ''500.00'', item_alignment = AlignRight_VCenter\<rparr>]])"
proof -
  let ?v = "\<lparr>v_date = ''2024-03-09'', v_category = ''Food'', v_description = ''pizza'',
             v_amount = Fin 500\<rparr>"
  let ?db = "[\<lparr>date = ''2024-03-01'', category = ''Rent'', description = None, amount = Fin 700\<rparr>,
         \<lparr>date = ''2024-03-09'', category = ''Food'', description = Some ''pizza'',
          amount = Fin 500\<rparr>]"
  have added: "add_expense sample_api ''2024-03-09'' ''Food'' ''pizza'' (Fin 500) sample_db = ?db"
    by (simp add: sample_api_def sample_db_def)
  have rows: "list_month sample_api ?db y m = ?db" for y m
    by (simp add: sample_api_def)
  have fmt: "sample_fmt2 (Fin 700) = ''700.00''" "sample_fmt2 (Fin 500) = ''500.00''"
    by (simp_all add: sample_fmt2_def)
  have call: "on_add sample_api sample_fmt2 QSoundEffect_stop (Some ?v) sample_db sample_window
      = bind_exn (reload sample_api sample_fmt2 QSoundEffect_stop ?db sample_window)
          (\<lambda>w'. Inr (w', ?db))"
    using expense_four_fields [where api = sample_api and ?fmt2.0 = sample_fmt2
        and qstop = QSoundEffect_stop and v = ?v and db = sample_db and w = sample_window]
    by (simp add: added)
  obtain w' where "reload sample_api sample_fmt2 QSoundEffect_stop ?db sample_window = Inr w'"
    and "table w' =
      map (\<lambda>r. [Some \<lparr>item_text = date r, item_alignment = AlignDefault\<rparr>,
                 Some \<lparr>item_text = category r, item_alignment = AlignDefault\<rparr>,
                 Some \<lparr>item_text = (case description r of None \<Rightarrow> [] | Some d \<Rightarrow> d),
                       item_alignment = AlignHCenter_VCenter\<rparr>,
                 Some \<lparr>item_text = sample_fmt2 (amount r),
                       item_alignment = AlignRight_VCenter\<rparr>])
        (list_month sample_api ?db (cmb_year sample_window)
           (int (cmb_month sample_window) + 1))"
    using expense_four_fields [where api = sample_api and ?fmt2.0 = sample_fmt2
        and qstop = QSoundEffect_stop and v = ?v and db = ?db and w = sample_window]
    by blast
  then have "reload sample_api sample_fmt2 QSoundEffect_stop ?db sample_window = Inr w'
      \<and> table w' =
          [[Some \<lparr>item_text = ''2024-03-01'', item_alignment = AlignDefault\<rparr>,
            Some \<lparr>item_text = ''Rent'', item_alignment = AlignDefault\<rparr>,
            Some \<lparr>item_text = [], item_alignment = AlignHCenter_VCenter\<rparr>,
            Some \<lparr>item_text = ''700.00'', item_alignment = AlignRight_VCenter\<rparr>],
           [Some \<lparr>item_text = ''2024-03-09'', item_alignment = AlignDefault\<rparr>,
            Some \<lparr>item_text = ''Food'', item_alignment = AlignDefault\<rparr>,
            Some \<lparr>item_text = ''pizza'', item_alignment = AlignHCenter_VCenter\<rparr>,
            Some \<lparr>item_text = ''500.00'', item_alignment = AlignRight_VCenter\<rparr>]]"
    by (simp add: rows fmt)
  with call show ?thesis by blast
qed

end
